theory Spec2Isabelle
  imports Main
begin

section \<open>Python values shared by the three adapters\<close>

text \<open>
  The three source files are Home Assistant platform adapters written in Python:
  \<^item> \<^verbatim>\<open>homeassistant/components/xiaomi_miio/vacuum.py\<close> (class MiroboVacuum),
  \<^item> \<^verbatim>\<open>homeassistant/components/xiaomi_miio/ng_switch.py\<close> (class XiaomiSwitch),
  \<^item> \<^verbatim>\<open>homeassistant/components/device_tracker/ubus.py\<close> (class UbusDeviceScanner).

  Conventions of the embedding.
  \<^item> A Python name with a leading underscore is written without it
    (\<^verbatim>\<open>_try_command\<close> is \<open>try_command\<close>); the attribute \<^verbatim>\<open>_state\<close> of the vacuum
    is the field \<open>state_field\<close>, because the property \<^verbatim>\<open>state\<close> keeps its own name.
  \<^item> An exception is a value of \<open>exn\<close>; a constructor stands for the class and its
    subclasses. A call that may raise returns \<open>exn + 'a\<close> (\<open>Inl\<close> the exception).
  \<^item> The module logger is a trace of records (level, format string); the arguments
    substituted into the format string are vendor text and are not kept.
  \<^item> Strings are lists of 8-bit characters; the string functions below are those of
    Python on ASCII text.
  \<^item> The vendor libraries (python-miio, python-ubus) are not part of the repository:
    what a vendor call returns or raises is a parameter of the model.
\<close>

datatype exn =
    DeviceException | UbusException | OSError | ValueError | TypeError
  | KeyError | NameError | AttributeError | OtherException

datatype level = DEBUG | WARNING | ERROR

type_synonym log_record = "level \<times> string"

text \<open>\<^verbatim>\<open>d[k]\<close> raises KeyError on a missing key; \<^verbatim>\<open>d.get(k)\<close> never raises and
  gives None there.\<close>

definition dict_getitem :: "('k \<rightharpoonup> 'v) \<Rightarrow> 'k \<Rightarrow> exn + 'v" where
  "dict_getitem d k = (case d k of None \<Rightarrow> Inl KeyError | Some v \<Rightarrow> Inr v)"

definition dict_get :: "('k \<rightharpoonup> 'v) \<Rightarrow> 'k \<Rightarrow> exn + 'v option" where
  "dict_get d k = Inr (d k)"

subsection \<open>Strings\<close>

text \<open>The ASCII characters for which \<^verbatim>\<open>str.isspace\<close> holds: tab, line feed, vertical
  tab, form feed, carriage return, the four separators 0x1C..0x1F and the space.\<close>

definition isspace :: "char \<Rightarrow> bool" where
  "isspace c = (let n = (of_char c :: nat) in (9 \<le> n \<and> n \<le> 13) \<or> (28 \<le> n \<and> n \<le> 32))"



text \<open>\<^verbatim>\<open>str.upper\<close> on ASCII: the letters a..z move to A..Z, every other character
  stays.\<close>

definition upper_char :: "char \<Rightarrow> char" where
  "upper_char c = (let n = (of_char c :: nat) in if 97 \<le> n \<and> n \<le> 122 then char_of (n - 32) else c)"

definition upper :: "string \<Rightarrow> string" where
  "upper s = map upper_char s"


text \<open>\<^verbatim>\<open>s.split(sep)\<close> for a separator of one character: the string is cut at every
  occurrence of the separator, so two separators in a row, or one at either end, give an
  empty field, and the empty string gives one empty field.\<close>

fun str_split :: "char \<Rightarrow> string \<Rightarrow> string list" where
  "str_split sep [] = [[]]"
| "str_split sep (c # cs) =
     (if c = sep then [] # str_split sep cs
      else (case str_split sep cs of
              [] \<Rightarrow> [[c]]
            | f # fs \<Rightarrow> (c # f) # fs))"

text \<open>\<^verbatim>\<open>s.split()\<close> with no separator, which is whitespace splitting: fields are the
  maximal runs of characters that are not whitespace; no field is empty. The first argument
  is the field being read.\<close>

fun split_whitespace_from :: "string \<Rightarrow> string \<Rightarrow> string list" where
  "split_whitespace_from cur [] = (if cur = [] then [] else [cur])"
| "split_whitespace_from cur (c # cs) =
     (if isspace c
      then (if cur = [] then split_whitespace_from [] cs
            else cur # split_whitespace_from [] cs)
      else split_whitespace_from (cur @ [c]) cs)"

definition split_whitespace :: "string \<Rightarrow> string list" where
  "split_whitespace s = split_whitespace_from [] s"

text \<open>\<^verbatim>\<open>s.splitlines()\<close>: the lines of the text without their line ends. The ASCII line
  boundaries are line feed, carriage return (with a following line feed, one boundary),
  vertical tab, form feed and the separators 0x1C..0x1E. A text that ends with a boundary
  has no empty last line. The first argument is the line being read.\<close>

definition is_line_boundary :: "char \<Rightarrow> bool" where
  "is_line_boundary c = (let n = (of_char c :: nat) in (10 \<le> n \<and> n \<le> 13) \<or> (28 \<le> n \<and> n \<le> 30))"

fun splitlines_from :: "string \<Rightarrow> string \<Rightarrow> string list" where
  "splitlines_from cur [] = (if cur = [] then [] else [cur])"
| "splitlines_from cur (c # cs) =
     (if is_line_boundary c
      then cur # splitlines_from []
             (if c = CHR 0x0D \<and> take 1 cs = [CHR 0x0A] then drop 1 cs else cs)
      else splitlines_from (cur @ [c]) cs)"

definition splitlines :: "string \<Rightarrow> string list" where
  "splitlines s = splitlines_from [] s"





section \<open>xiaomi_miio/vacuum.py\<close>

text \<open>The vendor enumeration \<^verbatim>\<open>miio.interfaces.vacuuminterface.VacuumState\<close>. The adapter
  names six members; \<open>Unknown\<close> stands for any other member the device may report.\<close>

datatype VacuumState = Error | Cleaning | Idle | Docked | Returning | Paused | Unknown

text \<open>The display constants the adapter imports from
  \<^verbatim>\<open>homeassistant.components.vacuum\<close>, kept symbolic.\<close>

datatype hass_state =
  STATE_CLEANING | STATE_DOCKED | STATE_ERROR | STATE_IDLE | STATE_PAUSED | STATE_RETURNING

text \<open>\<^verbatim>\<open>self.coordinator.data\<close>: the status object of the last poll, with the attributes
  the adapter reads.\<close>

record VacuumStatus =
  vacuum_state :: VacuumState
  fanspeed :: int
  battery :: int

text \<open>The methods of \<^verbatim>\<open>self._device\<close> the adapter calls, with their arguments. \<open>'f\<close> is
  the type of the float \<^verbatim>\<open>velocity\<close>, which the adapter only passes on.\<close>

datatype 'f command =
    dev_resume_or_start
  | dev_pause
  | dev_stop
  | dev_set_fan_speed int
  | dev_home
  | dev_spot
  | dev_find
  | dev_raw_command string "string list option"
  | dev_manual_start
  | dev_manual_stop
  | dev_manual_control 'f int int
  | dev_manual_control_once 'f int int
  | dev_goto int int
  | dev_segment_clean "int list"
  | dev_zoned_clean "int list list"


text \<open>The entity. Besides its attributes the record carries the traces of its effects:
  the records written to the module logger, the calls the device received and the number
  of times the entity state was written to the host.\<close>

record 'f MiroboVacuum =
  fan_speed_presets :: "(string \<times> int) list"
  fan_speed_presets_reverse :: "int \<rightharpoonup> string"
  state_field :: "hass_state option"
  coordinator_data :: VacuumStatus
  LOGGER :: "log_record list"
  device_calls :: "'f command list"
  ha_state_writes :: nat

type_synonym ('f, 'a) outcome = "(exn + 'a) \<times> 'f MiroboVacuum"

text \<open>\<^verbatim>\<open>__init__\<close>: \<open>presets\<close> is what \<^verbatim>\<open>device.fan_speed_presets()\<close> returned, a dict
  in insertion order; the comprehension
  \<^verbatim>\<open>{speed: name for name, speed in self._fan_speed_presets.items()}\<close> stores the pairs
  in that order, a later one replacing an earlier one of the same speed.\<close>

definition MiroboVacuum_init :: "(string \<times> int) list \<Rightarrow> VacuumStatus \<Rightarrow> 'f MiroboVacuum" where
  "MiroboVacuum_init presets data =
     \<lparr> fan_speed_presets = presets,
       fan_speed_presets_reverse =
         fold (\<lambda>(name, speed) d. d(speed \<mapsto> name)) presets Map.empty,
       state_field = None,
       coordinator_data = data,
       LOGGER = [],
       device_calls = [],
       ha_state_writes = 0 \<rparr>"

definition state :: "'f MiroboVacuum \<Rightarrow> hass_state option" where
  "state v =
     (if vacuum_state (coordinator_data v) = Error then Some STATE_ERROR
      else state_field v)"

definition battery_level :: "'f MiroboVacuum \<Rightarrow> int" where
  "battery_level v = battery (coordinator_data v)"

definition fan_speed :: "'f MiroboVacuum \<Rightarrow> string" where
  "fan_speed v =
     (let speed = fanspeed (coordinator_data v)
      in case fan_speed_presets_reverse v speed of
           None \<Rightarrow> ''Custom''
         | Some name \<Rightarrow> name)"

definition fan_speed_list :: "'f MiroboVacuum \<Rightarrow> string list" where
  "fan_speed_list v = map fst (fan_speed_presets v)"

definition log :: "level \<Rightarrow> string \<Rightarrow> 'f MiroboVacuum \<Rightarrow> 'f MiroboVacuum" where
  "log lvl msg v = v\<lparr>LOGGER := LOGGER v @ [(lvl, msg)]\<rparr>"

definition VACUUMSTATE_TO_HASS :: "VacuumState \<rightharpoonup> hass_state" where
  "VACUUMSTATE_TO_HASS =
     [Error \<mapsto> STATE_ERROR,
      Cleaning \<mapsto> STATE_CLEANING,
      Idle \<mapsto> STATE_IDLE,
      Docked \<mapsto> STATE_DOCKED,
      Returning \<mapsto> STATE_RETURNING,
      Paused \<mapsto> STATE_PAUSED]"

text \<open>Modelled from the spec: \<^verbatim>\<open>CoordinatorEntity._handle_coordinator_update\<close> of the
  host framework, which is not under src/. The entity state is derived from the latest
  poll and shown by the host; the model counts the write.\<close>

definition super_handle_coordinator_update :: "'f MiroboVacuum \<Rightarrow> ('f, unit) outcome" where
  "super_handle_coordinator_update v = (Inr (), v\<lparr>ha_state_writes := ha_state_writes v + 1\<rparr>)"

text \<open>\<^verbatim>\<open>_handle_coordinator_update\<close>. The try block is the lookup
  \<^verbatim>\<open>VACUUMSTATE_TO_HASS.get(vacstate)\<close>; the handler is for KeyError only.\<close>

definition handle_coordinator_update :: "'f MiroboVacuum \<Rightarrow> ('f, unit) outcome" where
  "handle_coordinator_update v =
     (let vacstate = vacuum_state (coordinator_data v)
      in case dict_get VACUUMSTATE_TO_HASS vacstate of
           Inr st \<Rightarrow> super_handle_coordinator_update (v\<lparr>state_field := st\<rparr>)
         | Inl e \<Rightarrow>
             if e = KeyError
             then super_handle_coordinator_update
                    ((log ERROR ''Unknown state: %s'' v)\<lparr>state_field := None\<rparr>)
             else (Inl e, v))"




















section \<open>xiaomi_miio/ng_switch.py\<close>








section \<open>device_tracker/ubus.py\<close>

text \<open>A JSON object of a vendor reply, as the list of its items in order (attribute
  name, value as text).\<close>

type_synonym json_object = "(string \<times> string) list"

text \<open>The attrs class \<^verbatim>\<open>Lease\<close>: five attributes without defaults, so the generated
  \<^verbatim>\<open>__init__\<close> takes exactly five positional arguments and any other number raises
  TypeError.\<close>

record Lease =
  expires :: string
  mac :: string
  ip :: string
  hostname :: string
  client_id :: string

definition Lease_init :: "string list \<Rightarrow> exn + Lease" where
  "Lease_init args =
     (case args of
        [a, b, c, d, e] \<Rightarrow>
          Inr \<lparr>expires = a, mac = b, ip = c, hostname = d, client_id = e\<rparr>
      | _ \<Rightarrow> Inl TypeError)"

text \<open>A value of the \<^verbatim>\<open>leases\<close> dict of \<^verbatim>\<open>_get_leases\<close>: a Lease object, or a list of
  raw odhcpd leases (see \<open>get_odhcpd_leases\<close>).\<close>

datatype lease_value = LeaseObj Lease | RawLeases "string list"

text \<open>The reply of \<^verbatim>\<open>ubus["dhcp"][lease_method]()\<close>: a dict whose values are dicts
  (interface to a dict whose values are lists of leases).\<close>

type_synonym odhcpd_leases = "(string \<times> string list) list"
type_synonym odhcpd_device = "(string \<times> odhcpd_leases) list"
type_synonym odhcpd_reply = "(string \<times> odhcpd_device) list"

text \<open>The vendor's bus client, by what each use of it in the adapter returns or raises:
  entering the session (\<^verbatim>\<open>with self.ubus as ubus\<close>), \<^verbatim>\<open>name in ubus\<close>,
  \<^verbatim>\<open>ubus["iwinfo"]["devices"]()\<close>, \<^verbatim>\<open>ubus["iwinfo"]["assoclist"](device=iface)\<close>,
  \<^verbatim>\<open>ubus["dhcp"][lease_method]()\<close>, \<^verbatim>\<open>ubus["uci"]["get"](config="dhcp",
  type="dnsmasq")["values"]\<close>, \<^verbatim>\<open>ubus["file"]["read"](path=p)["data"]\<close> and
  \<^verbatim>\<open>is_valid_session()\<close>.\<close>

record Ubus =
  session_enter :: "exn option"
  contains :: "string \<Rightarrow> bool"
  iwinfo_devices :: "exn + string list"
  iwinfo_assoclist :: "string \<Rightarrow> exn + json_object list"
  dhcp_leases :: "string \<Rightarrow> exn + odhcpd_reply"
  uci_get_dnsmasq_values :: "exn + json_object list"
  file_read_data :: "string \<Rightarrow> exn + string"
  is_valid_session :: bool

record UbusDeviceScanner =
  username :: "string option"
  password :: "string option"
  lease_file :: "string option"
  ubus :: Ubus
  wlan_ifaces :: "string list"
  success_init :: bool

type_synonym 'a logged = "(exn + 'a) \<times> log_record list"

text \<open>The names the module binds to strings. \<^verbatim>\<open>CONF_LEASE_FILE\<close> is assigned in the
  module. Modelled from the spec: \<^verbatim>\<open>CONF_HOST\<close>, \<^verbatim>\<open>CONF_PASSWORD\<close>, \<^verbatim>\<open>CONF_USERNAME\<close>
  of \<^verbatim>\<open>homeassistant.const\<close>, which is not under src/, are the keys of the
  configuration the spec lists: host, username, password.\<close>

definition module_globals :: "string \<rightharpoonup> string" where
  "module_globals =
     [''CONF_LEASE_FILE'' \<mapsto> ''lease_file'',
      ''CONF_HOST'' \<mapsto> ''host'',
      ''CONF_PASSWORD'' \<mapsto> ''password'',
      ''CONF_USERNAME'' \<mapsto> ''username'']"

text \<open>Reading a global name: a name the module does not bind raises NameError.\<close>

definition load_global :: "string \<Rightarrow> exn + string" where
  "load_global name = (case module_globals name of None \<Rightarrow> Inl NameError | Some v \<Rightarrow> Inr v)"

text \<open>\<^verbatim>\<open>config[NAME]\<close>: the name is read, then the dict is subscripted.\<close>

definition config_item :: "(string \<rightharpoonup> string option) \<Rightarrow> string \<Rightarrow> exn + string option" where
  "config_item config name =
     (case load_global name of
        Inl e \<Rightarrow> Inl e
      | Inr key \<Rightarrow> dict_getitem config key)"

definition get_network_interfaces :: "Ubus \<Rightarrow> string list logged" where
  "get_network_interfaces u =
     (let attempt = (case session_enter u of Some e \<Rightarrow> Inl e | None \<Rightarrow> iwinfo_devices u)
      in case attempt of
           Inr ifaces \<Rightarrow> (Inr ifaces, [])
         | Inl e \<Rightarrow>
             if e = UbusException
             then (Inr [],
                   [(ERROR, ''Unable to read network interfaces from ubus,check your configuration: %s'')])
             else (Inl e, []))"

text \<open>\<^verbatim>\<open>__init__\<close>. \<open>Ubus_new\<close> is the vendor's constructor. The four configuration
  values are read in the order of the source, under the names the source writes: the
  fourth is read as \<^verbatim>\<open>config[CONF_LEASEFILE]\<close>.\<close>

definition UbusDeviceScanner_init ::
  "(string option \<Rightarrow> string option \<Rightarrow> string option \<Rightarrow> Ubus) \<Rightarrow>
   (string \<rightharpoonup> string option) \<Rightarrow> UbusDeviceScanner logged" where
  "UbusDeviceScanner_init Ubus_new config =
     (case config_item config ''CONF_HOST'' of
        Inl e \<Rightarrow> (Inl e, [])
      | Inr host \<Rightarrow>
     (case config_item config ''CONF_USERNAME'' of
        Inl e \<Rightarrow> (Inl e, [])
      | Inr username' \<Rightarrow>
     (case config_item config ''CONF_PASSWORD'' of
        Inl e \<Rightarrow> (Inl e, [])
      | Inr password' \<Rightarrow>
     (case config_item config ''CONF_LEASEFILE'' of
        Inl e \<Rightarrow> (Inl e, [])
      | Inr lease_file' \<Rightarrow>
     (let u = Ubus_new host username' password'
      in case get_network_interfaces u of
           (Inl e, lg) \<Rightarrow> (Inl e, lg)
         | (Inr ifaces, lg) \<Rightarrow>
             (Inr \<lparr> username = username', password = password',
                    lease_file = lease_file', ubus = u, wlan_ifaces = ifaces,
                    success_init = is_valid_session u \<rparr>, lg))))))"




text \<open>\<^verbatim>\<open>_get_odhcpd_leases\<close>. The local \<^verbatim>\<open>leases\<close> starts as the empty dict and is the
  target of the loop \<^verbatim>\<open>for iface, leases in dev.items()\<close>, so the function returns the
  dict bound last by that loop, or the empty dict when the loop never ran.\<close>

definition odhcpd_device_log :: "odhcpd_device \<Rightarrow> log_record list" where
  "odhcpd_device_log dev =
     (WARNING, ''RAW lease: %s'') #
     concat (map (\<lambda>(iface, leases).
        concat (map (\<lambda>(k, vlist). map (\<lambda>lease. (WARNING, ''odhcpd lease: %s'')) vlist) leases))
        dev)"

definition odhcpd_last_bound :: "odhcpd_device list \<Rightarrow> odhcpd_leases" where
  "odhcpd_last_bound devs = fold (\<lambda>dev acc. fold (\<lambda>(iface, leases) acc'. leases) dev acc) devs []"

definition get_odhcpd_leases :: "Ubus \<Rightarrow> (string \<rightharpoonup> string list) logged" where
  "get_odhcpd_leases u =
     (let start = [(WARNING, ''odhcpd not supported, please report the lines below'')]
      in case dhcp_leases u ''ipv4leases'' of
           Inl e \<Rightarrow> (Inl e, start)
         | Inr reply4 \<Rightarrow>
             (let log4 = start @ concat (map odhcpd_device_log (map snd reply4))
              in case dhcp_leases u ''ipv6leases'' of
                   Inl e \<Rightarrow> (Inl e, log4)
                 | Inr reply6 \<Rightarrow>
                     (Inr (map_of (odhcpd_last_bound (map snd reply4 @ map snd reply6))),
                      log4 @ concat (map odhcpd_device_log (map snd reply6)))))"

text \<open>\<^verbatim>\<open>_get_lease_files\<close>: \<^verbatim>\<open>[x["leasefile"] for x in dhcp_config["values"]]\<close>.\<close>

fun leasefile_items :: "json_object list \<Rightarrow> exn + string list" where
  "leasefile_items [] = Inr []"
| "leasefile_items (x # xs) =
     (case dict_getitem (map_of x) ''leasefile'' of
        Inl e \<Rightarrow> Inl e
      | Inr f \<Rightarrow> (case leasefile_items xs of Inl e \<Rightarrow> Inl e | Inr fs \<Rightarrow> Inr (f # fs)))"

definition get_lease_files :: "Ubus \<Rightarrow> exn + string list" where
  "get_lease_files u =
     (case uci_get_dnsmasq_values u of
        Inl e \<Rightarrow> Inl e
      | Inr values \<Rightarrow> leasefile_items values)"

text \<open>The loop of \<^verbatim>\<open>_get_dnsmasq_leases\<close> over the lines of the lease file:
  \<^verbatim>\<open>lease = Lease(*lease_line.split(" "))\<close>, then
  \<^verbatim>\<open>leases[lease.mac.upper()] = lease\<close>.\<close>

fun lease_lines_loop :: "string list \<Rightarrow> (string \<rightharpoonup> Lease) \<Rightarrow> exn + (string \<rightharpoonup> Lease)" where
  "lease_lines_loop [] leases = Inr leases"
| "lease_lines_loop (lease_line # lease_lines) leases =
     (case Lease_init (str_split (CHR '' '') lease_line) of
        Inl e \<Rightarrow> Inl e
      | Inr lease \<Rightarrow> lease_lines_loop lease_lines (leases(upper (mac lease) \<mapsto> lease)))"

definition get_dnsmasq_leases :: "Ubus \<Rightarrow> string \<Rightarrow> exn + (string \<rightharpoonup> Lease)" where
  "get_dnsmasq_leases u lease_file' =
     (case file_read_data u lease_file' of
        Inl e \<Rightarrow> Inl e
      | Inr currently_leased \<Rightarrow> lease_lines_loop (splitlines currently_leased) Map.empty)"

text \<open>The loop of \<^verbatim>\<open>_get_leases\<close> over the lease files:
  \<^verbatim>\<open>leases.update(self._get_dnsmasq_leases(ubus, lease_file))\<close>. It returns the exception
  that ended it, if any, and the dict \<^verbatim>\<open>leases\<close> as updated until then.\<close>

fun lease_files_loop ::
  "Ubus \<Rightarrow> string list \<Rightarrow> (string \<rightharpoonup> lease_value) \<Rightarrow> exn option \<times> (string \<rightharpoonup> lease_value)" where
  "lease_files_loop u [] leases = (None, leases)"
| "lease_files_loop u (f # fs) leases =
     (case get_dnsmasq_leases u f of
        Inl e \<Rightarrow> (Some e, leases)
      | Inr d \<Rightarrow> lease_files_loop u fs (leases ++ (\<lambda>k. map_option LeaseObj (d k))))"

text \<open>The try block of \<^verbatim>\<open>_get_leases\<close>: the exception that ended it, if any, the dict
  \<^verbatim>\<open>leases\<close> at that point, and the records logged.\<close>

definition get_leases_try ::
  "UbusDeviceScanner \<Rightarrow> (exn option \<times> (string \<rightharpoonup> lease_value)) \<times> log_record list" where
  "get_leases_try self =
     (let u = ubus self
      in case session_enter u of
           Some e \<Rightarrow> ((Some e, Map.empty), [])
         | None \<Rightarrow>
             (let odhcpd =
                    (if contains u ''dhcp''
                     then (case get_odhcpd_leases u of
                             (Inl e, lg) \<Rightarrow> (Inl e, lg)
                           | (Inr d, lg) \<Rightarrow>
                               (Inr (Map.empty ++ (\<lambda>k. map_option RawLeases (d k))),
                                lg @ [(WARNING, ''Report the lease format as shown above'')]))
                     else (Inr Map.empty, []))
              in case odhcpd of
                   (Inl e, lg) \<Rightarrow> ((Some e, Map.empty), lg)
                 | (Inr leases, lg) \<Rightarrow>
                     (case (case lease_file self of
                              None \<Rightarrow> get_lease_files u
                            | Some f \<Rightarrow> Inr [f]) of
                        Inl e \<Rightarrow> ((Some e, leases), lg)
                      | Inr lease_files \<Rightarrow>
                          (case lease_files_loop u lease_files leases of
                             (Some e, leases') \<Rightarrow> ((Some e, leases'), lg)
                           | (None, leases') \<Rightarrow>
                               ((None, leases'), lg @ [(DEBUG, ''Found %s leases: %s'')])))))"

definition get_leases :: "UbusDeviceScanner \<Rightarrow> (string \<rightharpoonup> lease_value) logged" where
  "get_leases self =
     (case get_leases_try self of
        ((None, leases), lg) \<Rightarrow> (Inr leases, lg)
      | ((Some e, leases), lg) \<Rightarrow>
          if e = UbusException
          then (Inr leases, lg @ [(ERROR, ''Unable to read leases from ubus: %s'')])
          else (Inl e, lg))"


text \<open>\<^verbatim>\<open>get_device_name\<close>: \<^verbatim>\<open>leases[mac].hostname\<close> when \<^verbatim>\<open>mac in leases\<close>, and None
  otherwise (the function ends without a return). A list has no attribute
  \<^verbatim>\<open>hostname\<close>.\<close>

definition get_device_name :: "UbusDeviceScanner \<Rightarrow> string \<Rightarrow> string option logged" where
  "get_device_name self mac' =
     (case get_leases self of
        (Inl e, lg) \<Rightarrow> (Inl e, lg)
      | (Inr leases, lg) \<Rightarrow>
          (case leases mac' of
             None \<Rightarrow> (Inr None, lg)
           | Some (LeaseObj lease) \<Rightarrow> (Inr (Some (hostname lease)), lg)
           | Some (RawLeases _) \<Rightarrow> (Inl AttributeError, lg)))"

section \<open>Observations and example inputs\<close>



text \<open>A vacuum with four presets, docked; a device that raises DeviceException on every
  call and one that returns from every call; a switch that is off and a setter that
  raises. The float \<^verbatim>\<open>velocity\<close> is written as text in the examples.\<close>

definition example_presets :: "(string \<times> int) list" where
  "example_presets = [(''Silent'', 38), (''Standard'', 60), (''Medium'', 77), (''Turbo'', 90)]"

definition docked_status :: VacuumStatus where
  "docked_status = \<lparr>vacuum_state = Docked, fanspeed = 60, battery = 100\<rparr>"







text \<open>A router with two wireless interfaces, of which the second cannot be read, and
  two lease files, of which the second cannot be read. The first lease file holds two
  leases as dnsmasq writes them; the file "/tmp/dhcp.tabbed" holds one line that starts
  with a space and has a tab between its first two columns.\<close>

definition example_client :: json_object where
  "example_client = [(''mac'', ''AA:BB:CC:DD:EE:FF''), (''signal'', ''-52'')]"

definition example_lease_text :: string where
  "example_lease_text =
     ''1700000000 aa:bb:cc:dd:ee:ff 192.168.1.23 phone *'' @ [CHR 0x0A] @
     ''1700000100 11:22:33:44:55:66 192.168.1.24 laptop 01:11:22:33:44:55:66'' @ [CHR 0x0A]"

definition tabbed_lease_text :: string where
  "tabbed_lease_text =
     '' 1700000000'' @ [CHR 0x09] @ ''aa:bb:cc:dd:ee:ff 192.168.1.23 phone *'' @ [CHR 0x0A]"

definition example_ubus :: Ubus where
  "example_ubus =
     \<lparr> session_enter = None,
       contains = (\<lambda>name. name = ''iwinfo'' \<or> name = ''uci'' \<or> name = ''file''),
       iwinfo_devices = Inr [''wlan0'', ''wlan1''],
       iwinfo_assoclist =
         (\<lambda>iface. if iface = ''wlan0'' then Inr [example_client] else Inl UbusException),
       dhcp_leases = (\<lambda>lease_method. Inl UbusException),
       uci_get_dnsmasq_values =
         Inr [[(''leasefile'', ''/tmp/dhcp.leases'')], [(''leasefile'', ''/tmp/dhcp.guest'')]],
       file_read_data =
         (\<lambda>path. if path = ''/tmp/dhcp.leases'' then Inr example_lease_text
                else if path = ''/tmp/dhcp.tabbed'' then Inr tabbed_lease_text
                else Inl UbusException),
       is_valid_session = True \<rparr>"

definition example_scanner :: UbusDeviceScanner where
  "example_scanner =
     \<lparr> username = Some ''root'', password = Some ''secret'', lease_file = None,
       ubus = example_ubus, wlan_ifaces = [''wlan0'', ''wlan1''], success_init = True \<rparr>"

text \<open>The entry a well-formed lease line adds to the dict of \<^verbatim>\<open>_get_dnsmasq_leases\<close>:
  the key and the Lease, read off the fields of the line by position.\<close>

definition line_entry :: "string \<Rightarrow> string \<times> Lease" where
  "line_entry lease_line =
     (let fs = str_split (CHR '' '') lease_line
      in (upper (fs ! 1),
          \<lparr>expires = fs ! 0, mac = fs ! 1, ip = fs ! 2, hostname = fs ! 3, client_id = fs ! 4\<rparr>))"

text \<open>The two leases of the first example lease file, as the dict of Lease objects and
  as the dict \<^verbatim>\<open>leases\<close> of \<^verbatim>\<open>_get_leases\<close>.\<close>

definition example_lease_dict :: "string \<rightharpoonup> Lease" where
  "example_lease_dict =
     [''AA:BB:CC:DD:EE:FF'' \<mapsto>
        \<lparr>expires = ''1700000000'', mac = ''aa:bb:cc:dd:ee:ff'', ip = ''192.168.1.23'',
          hostname = ''phone'', client_id = ''*''\<rparr>,
      ''11:22:33:44:55:66'' \<mapsto>
        \<lparr>expires = ''1700000100'', mac = ''11:22:33:44:55:66'', ip = ''192.168.1.24'',
          hostname = ''laptop'', client_id = ''01:11:22:33:44:55:66''\<rparr>]"

definition example_leases :: "string \<rightharpoonup> lease_value" where
  "example_leases =
     [''AA:BB:CC:DD:EE:FF'' \<mapsto>
        LeaseObj \<lparr>expires = ''1700000000'', mac = ''aa:bb:cc:dd:ee:ff'', ip = ''192.168.1.23'',
                  hostname = ''phone'', client_id = ''*''\<rparr>,
      ''11:22:33:44:55:66'' \<mapsto>
        LeaseObj \<lparr>expires = ''1700000100'', mac = ''11:22:33:44:55:66'', ip = ''192.168.1.24'',
                  hostname = ''laptop'', client_id = ''01:11:22:33:44:55:66''\<rparr>]"

section \<open>Properties of the vacuum adapter\<close>

lemma handle_coordinator_update_eq:
  "handle_coordinator_update v =
     (Inr (), v\<lparr>state_field := VACUUMSTATE_TO_HASS (vacuum_state (coordinator_data v)),
               ha_state_writes := ha_state_writes v + 1\<rparr>)"
  by (simp add: handle_coordinator_update_def dict_get_def super_handle_coordinator_update_def)




text \<open>Claim C6. The coordinator-update handler translates each known vendor vacuum state
  to the corresponding display constant by table lookup: the handler returns normally, the
  stored display state is the table's entry for the reported state, and the table sends
  Error to the error state, Cleaning to the cleaning state, Idle to the idle state, Docked
  to the docked state, Returning to the returning state and Paused to the paused state.\<close>

theorem handle_coordinator_update_known_states:
  "fst (handle_coordinator_update v) = Inr () \<and>
   state_field (snd (handle_coordinator_update v))
     = VACUUMSTATE_TO_HASS (vacuum_state (coordinator_data v)) \<and>
   VACUUMSTATE_TO_HASS Error = Some STATE_ERROR \<and>
   VACUUMSTATE_TO_HASS Cleaning = Some STATE_CLEANING \<and>
   VACUUMSTATE_TO_HASS Idle = Some STATE_IDLE \<and>
   VACUUMSTATE_TO_HASS Docked = Some STATE_DOCKED \<and>
   VACUUMSTATE_TO_HASS Returning = Some STATE_RETURNING \<and>
   VACUUMSTATE_TO_HASS Paused = Some STATE_PAUSED"
  by (simp add: handle_coordinator_update_eq VACUUMSTATE_TO_HASS_def)

text \<open>Claim C3. When the device reports a vacuum state that is none of the six known
  states, the claim expects the stored display state to become None and an error to be
  logged. The handler does store None, but nothing is logged: the lookup is
  \<^verbatim>\<open>VACUUMSTATE_TO_HASS.get(vacstate)\<close>, which cannot raise KeyError, so the handler that
  logs "Unknown state" never runs. The logger trace after the update is the trace
  before it.\<close>

theorem handle_coordinator_update_unknown_state_not_logged:
  "handle_coordinator_update (v\<lparr>coordinator_data := d\<lparr>vacuum_state := Unknown\<rparr>\<rparr>)
     = (Inr (), v\<lparr>coordinator_data := d\<lparr>vacuum_state := Unknown\<rparr>,
                  state_field := None,
                  ha_state_writes := ha_state_writes v + 1\<rparr>) \<and>
   LOGGER (snd (handle_coordinator_update (v\<lparr>coordinator_data := d\<lparr>vacuum_state := Unknown\<rparr>\<rparr>)))
     = LOGGER v"
  by (simp add: handle_coordinator_update_eq VACUUMSTATE_TO_HASS_def)

text \<open>Claim C9. Whenever the coordinator's latest data reports the vacuum state Error,
  the \<^verbatim>\<open>state\<close> property returns the error display state, whatever display state the last
  handled update stored; otherwise it returns the stored display state.\<close>

theorem state_property_error_overrides:
  "(vacuum_state (coordinator_data v) = Error \<longrightarrow> state v = Some STATE_ERROR) \<and>
   (vacuum_state (coordinator_data v) \<noteq> Error \<longrightarrow> state v = state_field v)"
  by (simp add: state_def)


text \<open>Witness of C9: a vacuum that stored the idle state while the coordinator reports
  Error shows the error state; one that stored the docked state while the coordinator
  reports Idle shows the docked state.\<close>

theorem state_property_error_overrides_witness:
  "vacuum_state (coordinator_data
      ((MiroboVacuum_init [] \<lparr>vacuum_state = Error, fanspeed = 60, battery = 80\<rparr>
          :: string MiroboVacuum)\<lparr>state_field := Some STATE_IDLE\<rparr>)) = Error \<and>
   state ((MiroboVacuum_init [] \<lparr>vacuum_state = Error, fanspeed = 60, battery = 80\<rparr>
          :: string MiroboVacuum)\<lparr>state_field := Some STATE_IDLE\<rparr>) = Some STATE_ERROR \<and>
   vacuum_state (coordinator_data
      ((MiroboVacuum_init [] \<lparr>vacuum_state = Idle, fanspeed = 60, battery = 80\<rparr>
          :: string MiroboVacuum)\<lparr>state_field := Some STATE_DOCKED\<rparr>)) \<noteq> Error \<and>
   state ((MiroboVacuum_init [] \<lparr>vacuum_state = Idle, fanspeed = 60, battery = 80\<rparr>
          :: string MiroboVacuum)\<lparr>state_field := Some STATE_DOCKED\<rparr>) = Some STATE_DOCKED"
  using state_property_error_overrides [of "(MiroboVacuum_init [] \<lparr>vacuum_state = Error, fanspeed = 60, battery = 80\<rparr>
          :: string MiroboVacuum)\<lparr>state_field := Some STATE_IDLE\<rparr>"]
        state_property_error_overrides [of "(MiroboVacuum_init [] \<lparr>vacuum_state = Idle, fanspeed = 60, battery = 80\<rparr>
          :: string MiroboVacuum)\<lparr>state_field := Some STATE_DOCKED\<rparr>"]
  by (simp add: MiroboVacuum_init_def)

subsection \<open>The reverse mapping of the fan speed presets\<close>

lemma reverse_lookup:
  "fold (\<lambda>(name, speed) d. d(speed \<mapsto> name)) ps m speed =
     (case map_of (rev (map (\<lambda>(name, speed). (speed, name)) ps)) speed of
        None \<Rightarrow> m speed | Some n \<Rightarrow> Some n)"
  by (induction ps arbitrary: m) (auto simp: map_add_def split: option.splits)

lemma reverse_lookup_distinct:
  assumes "distinct (map snd ps)" and "(name, speed) \<in> set ps"
  shows "fold (\<lambda>(name, speed) d. d(speed \<mapsto> name)) ps Map.empty speed = Some name"
proof -
  let ?sw = "map (\<lambda>(name, speed). (speed, name)) ps"
  have fst_sw: "map fst ?sw = map snd ps" by (induction ps) auto
  have "distinct (map fst (rev ?sw))"
    using assms(1) fst_sw by (simp add: rev_map [symmetric] del: map_map)
  moreover have "(speed, name) \<in> set (rev ?sw)"
    using assms(2) by force
  ultimately have "map_of (rev ?sw) speed = Some name" by simp
  then show ?thesis by (simp add: reverse_lookup)
qed

lemma reverse_lookup_absent:
  assumes "speed \<notin> snd ` set ps"
  shows "fold (\<lambda>(name, speed) d. d(speed \<mapsto> name)) ps Map.empty speed = None"
proof -
  let ?sw = "map (\<lambda>(name, speed). (speed, name)) ps"
  have "speed \<notin> fst ` set (rev ?sw)" using assms by force
  then have "map_of (rev ?sw) speed = None" by (simp add: map_of_eq_None_iff)
  then show ?thesis by (simp add: reverse_lookup)
qed

text \<open>Claim C7. The reverse mapping of the presets round-trips. For the entity built by
  \<^verbatim>\<open>__init__\<close> from the presets, with any later data of the coordinator: if the preset
  speed values are distinct, \<open>name\<close> is in \<^verbatim>\<open>fan_speed_list\<close> and the device reports the
  speed stored for \<open>name\<close>, then \<^verbatim>\<open>fan_speed\<close> is \<open>name\<close>; and if the reported speed is
  the value of no preset, \<^verbatim>\<open>fan_speed\<close> is "Custom".\<close>

theorem fan_speed_reverse_mapping_roundtrip:
  "(distinct (map snd presets) \<and>
    name \<in> set (fan_speed_list (MiroboVacuum_init presets d0)) \<and>
    map_of (fan_speed_presets (MiroboVacuum_init presets d0)) name = Some (fanspeed d)
    \<longrightarrow> fan_speed ((MiroboVacuum_init presets d0)\<lparr>coordinator_data := d\<rparr>) = name) \<and>
   (fanspeed d \<notin> snd ` set (fan_speed_presets (MiroboVacuum_init presets d0))
    \<longrightarrow> fan_speed ((MiroboVacuum_init presets d0)\<lparr>coordinator_data := d\<rparr>) = ''Custom'')"
proof (intro conjI impI)
  assume a: "distinct (map snd presets) \<and>
    name \<in> set (fan_speed_list (MiroboVacuum_init presets d0)) \<and>
    map_of (fan_speed_presets (MiroboVacuum_init presets d0)) name = Some (fanspeed d)"
  then have "map_of presets name = Some (fanspeed d)" by (simp add: MiroboVacuum_init_def)
  then have "(name, fanspeed d) \<in> set presets" by (rule map_of_SomeD)
  with a have "fold (\<lambda>(name, speed) d. d(speed \<mapsto> name)) presets Map.empty (fanspeed d) = Some name"
    by (simp add: reverse_lookup_distinct)
  then show "fan_speed ((MiroboVacuum_init presets d0)\<lparr>coordinator_data := d\<rparr>) = name"
    by (simp add: fan_speed_def MiroboVacuum_init_def)
next
  assume "fanspeed d \<notin> snd ` set (fan_speed_presets (MiroboVacuum_init presets d0))"
  then have "fanspeed d \<notin> snd ` set presets" by (simp add: MiroboVacuum_init_def)
  then have "fold (\<lambda>(name, speed) d. d(speed \<mapsto> name)) presets Map.empty (fanspeed d) = None"
    by (rule reverse_lookup_absent)
  then show "fan_speed ((MiroboVacuum_init presets d0)\<lparr>coordinator_data := d\<rparr>) = ''Custom''"
    by (simp add: fan_speed_def MiroboVacuum_init_def)
qed

text \<open>Witness of C7: with the four example presets, a reported speed of 60 is shown as
  "Standard" and a reported speed of 50 as "Custom".\<close>

theorem fan_speed_reverse_mapping_roundtrip_witness:
  "distinct (map snd example_presets) \<and>
   ''Standard'' \<in> set (fan_speed_list (MiroboVacuum_init example_presets docked_status :: string MiroboVacuum)) \<and>
   map_of (fan_speed_presets (MiroboVacuum_init example_presets docked_status :: string MiroboVacuum)) ''Standard''
     = Some (fanspeed docked_status) \<and>
   fan_speed ((MiroboVacuum_init example_presets docked_status :: string MiroboVacuum)
                \<lparr>coordinator_data := docked_status\<rparr>) = ''Standard'' \<and>
   fanspeed (docked_status\<lparr>fanspeed := 50\<rparr>)
     \<notin> snd ` set (fan_speed_presets (MiroboVacuum_init example_presets docked_status :: string MiroboVacuum)) \<and>
   fan_speed ((MiroboVacuum_init example_presets docked_status :: string MiroboVacuum)
                \<lparr>coordinator_data := docked_status\<lparr>fanspeed := 50\<rparr>\<rparr>) = ''Custom''"
  using fan_speed_reverse_mapping_roundtrip [of example_presets "''Standard''" docked_status docked_status, where ?'a = string]
        fan_speed_reverse_mapping_roundtrip [of example_presets "''Standard''" docked_status "docked_status\<lparr>fanspeed := 50\<rparr>", where ?'a = string]
  by (simp add: example_presets_def docked_status_def MiroboVacuum_init_def fan_speed_list_def)

subsection \<open>Commands\<close>










section \<open>Properties of the ubus device tracker\<close>

text \<open>Claim C5. For a configuration with host, username and password (the lease file
  path optional), the claim expects the construction of the scanner to read all four
  values and to store the lease file path. The constructor reads the fourth value as
  \<^verbatim>\<open>config[CONF_LEASEFILE]\<close>, a name the module does not bind (it binds
  \<^verbatim>\<open>CONF_LEASE_FILE\<close>): for the configuration below the construction raises NameError,
  and for no configuration and no vendor constructor does it return a scanner.\<close>

theorem ubus_scanner_init_raises_NameError:
  "load_global ''CONF_LEASEFILE'' = Inl NameError \<and>
   load_global ''CONF_LEASE_FILE'' = Inr ''lease_file'' \<and>
   UbusDeviceScanner_init Ubus_new
     [''host'' \<mapsto> Some ''192.168.1.1'', ''username'' \<mapsto> Some ''root'',
      ''password'' \<mapsto> Some ''secret'', ''lease_file'' \<mapsto> None]
     = (Inl NameError, []) \<and>
   fst (UbusDeviceScanner_init Ubus_new config) \<noteq> Inr scanner"
proof -
  have g: "load_global ''CONF_LEASEFILE'' = Inl NameError"
    by (simp add: load_global_def module_globals_def)
  have g2: "load_global ''CONF_LEASE_FILE'' = Inr ''lease_file''"
    by (simp add: load_global_def module_globals_def)
  have c: "config_item cfg ''CONF_LEASEFILE'' = Inl NameError" for cfg
    by (simp add: config_item_def g)
  have never: "fst (UbusDeviceScanner_init Ubus_new config) \<noteq> Inr scanner"
    by (simp add: UbusDeviceScanner_init_def c split: sum.splits)
  have h: "config_item [''host'' \<mapsto> Some ''192.168.1.1'', ''username'' \<mapsto> Some ''root'',
      ''password'' \<mapsto> Some ''secret'', ''lease_file'' \<mapsto> None] ''CONF_HOST'' = Inr (Some ''192.168.1.1'')"
    by (simp add: config_item_def load_global_def module_globals_def dict_getitem_def)
  have u: "config_item [''host'' \<mapsto> Some ''192.168.1.1'', ''username'' \<mapsto> Some ''root'',
      ''password'' \<mapsto> Some ''secret'', ''lease_file'' \<mapsto> None] ''CONF_USERNAME'' = Inr (Some ''root'')"
    by (simp add: config_item_def load_global_def module_globals_def dict_getitem_def)
  have pw: "config_item [''host'' \<mapsto> Some ''192.168.1.1'', ''username'' \<mapsto> Some ''root'',
      ''password'' \<mapsto> Some ''secret'', ''lease_file'' \<mapsto> None] ''CONF_PASSWORD'' = Inr (Some ''secret'')"
    by (simp add: config_item_def load_global_def module_globals_def dict_getitem_def)
  have ex: "UbusDeviceScanner_init Ubus_new
     [''host'' \<mapsto> Some ''192.168.1.1'', ''username'' \<mapsto> Some ''root'',
      ''password'' \<mapsto> Some ''secret'', ''lease_file'' \<mapsto> None]
     = (Inl NameError, [])"
    by (simp add: UbusDeviceScanner_init_def c h u pw)
  show ?thesis using g g2 ex never by simp
qed

subsection \<open>Lease files\<close>

lemma Lease_init_five:
  "length fs = 5 \<Longrightarrow>
   Lease_init fs =
     Inr \<lparr>expires = fs ! 0, mac = fs ! 1, ip = fs ! 2, hostname = fs ! 3, client_id = fs ! 4\<rparr>"
  by (auto simp: Lease_init_def numeral_eq_Suc length_Suc_conv)

lemma lease_lines_loop_wellformed:
  "list_all (\<lambda>l. length (str_split (CHR '' '') l) = 5) ls \<Longrightarrow>
   lease_lines_loop ls leases = Inr (leases ++ map_of (rev (map line_entry ls)))"
proof (induction ls arbitrary: leases)
  case Nil
  then show ?case by simp
next
  case (Cons l ls)
  then have five: "length (str_split (CHR '' '') l) = 5"
    and rest: "list_all (\<lambda>l. length (str_split (CHR '' '') l) = 5) ls"
    by simp_all
  obtain k lease where e: "line_entry l = (k, lease)" by (cases "line_entry l")
  have init: "Lease_init (str_split (CHR '' '') l) = Inr lease" and k: "k = upper (mac lease)"
    using e five by (auto simp: line_entry_def Let_def Lease_init_five)
  have "lease_lines_loop (l # ls) leases = lease_lines_loop ls (leases(k \<mapsto> lease))"
    by (simp add: init k)
  also have "\<dots> = Inr (leases(k \<mapsto> lease) ++ map_of (rev (map line_entry ls)))"
    by (rule Cons.IH [OF rest])
  also have "leases(k \<mapsto> lease) ++ map_of (rev (map line_entry ls))
      = leases ++ map_of (rev (map line_entry (l # ls)))"
    by (rule ext) (simp add: e map_add_def split: option.splits)
  finally show ?case .
qed

text \<open>Claim C2, amended. \<^verbatim>\<open>_get_dnsmasq_leases\<close> cuts each line of the lease file at
  every single space (\<^verbatim>\<open>split(" ")\<close>, not whitespace splitting). When every line has
  exactly five such fields, it returns the dict that holds, for each line, the Lease built
  from the fields in order (expiry, hardware address, IP address, hostname, client
  identifier) under the uppercased second field, a later line replacing an earlier one of
  the same key.\<close>

theorem dnsmasq_leases_of_wellformed_text:
  assumes "file_read_data u path = Inr text"
    and "list_all (\<lambda>lease_line. length (str_split (CHR '' '') lease_line) = 5) (splitlines text)"
  shows "get_dnsmasq_leases u path =
     Inr (map_of (rev (map
       (\<lambda>lease_line.
          let fs = str_split (CHR '' '') lease_line
          in (upper (fs ! 1),
              \<lparr>expires = fs ! 0, mac = fs ! 1, ip = fs ! 2, hostname = fs ! 3,
                client_id = fs ! 4\<rparr>))
       (splitlines text))))"
proof -
  have "get_dnsmasq_leases u path = lease_lines_loop (splitlines text) Map.empty"
    by (simp add: get_dnsmasq_leases_def assms(1))
  also have "\<dots> = Inr (Map.empty ++ map_of (rev (map line_entry (splitlines text))))"
    by (rule lease_lines_loop_wellformed [OF assms(2)])
  finally show ?thesis
    by (simp add: line_entry_def [abs_def])
qed

lemma tabbed_text_lines: "splitlines tabbed_lease_text =
   ['' 1700000000'' @ [CHR 0x09] @ ''aa:bb:cc:dd:ee:ff 192.168.1.23 phone *'']"
  by code_simp

lemma tabbed_line_whitespace_fields: "split_whitespace ('' 1700000000'' @ [CHR 0x09] @ ''aa:bb:cc:dd:ee:ff 192.168.1.23 phone *'')
   = [''1700000000'', ''aa:bb:cc:dd:ee:ff'', ''192.168.1.23'', ''phone'', ''*'']"
  by code_simp

lemma tabbed_line_space_fields: "str_split (CHR '' '') ('' 1700000000'' @ [CHR 0x09] @ ''aa:bb:cc:dd:ee:ff 192.168.1.23 phone *'')
   = ['''', ''1700000000'' @ [CHR 0x09] @ ''aa:bb:cc:dd:ee:ff'', ''192.168.1.23'', ''phone'', ''*'']"
  by code_simp

lemma tabbed_mac_upper: "upper (''1700000000'' @ [CHR 0x09] @ ''aa:bb:cc:dd:ee:ff'')
   = ''1700000000'' @ [CHR 0x09] @ ''AA:BB:CC:DD:EE:FF''"
  by code_simp

text \<open>Counterexample to C2 as stated. The line below starts with a space and has a tab
  between the expiry and the hardware address. Whitespace splitting gives the five fields
  of a lease whose second field is the hardware address; the code returns a dict whose only
  key is the uppercased text "1700000000<tab>aa:bb:cc:dd:ee:ff", with an empty expiry, and
  which has no entry under the uppercased hardware address.\<close>

theorem dnsmasq_leases_not_whitespace_split:
  "split_whitespace ('' 1700000000'' @ [CHR 0x09] @ ''aa:bb:cc:dd:ee:ff 192.168.1.23 phone *'')
     = [''1700000000'', ''aa:bb:cc:dd:ee:ff'', ''192.168.1.23'', ''phone'', ''*''] \<and>
   file_read_data example_ubus ''/tmp/dhcp.tabbed''
     = Inr ('' 1700000000'' @ [CHR 0x09] @ ''aa:bb:cc:dd:ee:ff 192.168.1.23 phone *'' @ [CHR 0x0A]) \<and>
   get_dnsmasq_leases example_ubus ''/tmp/dhcp.tabbed''
     = Inr [''1700000000'' @ [CHR 0x09] @ ''AA:BB:CC:DD:EE:FF'' \<mapsto>
             \<lparr>expires = '''', mac = ''1700000000'' @ [CHR 0x09] @ ''aa:bb:cc:dd:ee:ff'',
               ip = ''192.168.1.23'', hostname = ''phone'', client_id = ''*''\<rparr>] \<and>
   map_sum id (\<lambda>leases. leases ''AA:BB:CC:DD:EE:FF'')
     (get_dnsmasq_leases example_ubus ''/tmp/dhcp.tabbed'') = Inr None"
proof -
  have r: "file_read_data example_ubus ''/tmp/dhcp.tabbed'' = Inr tabbed_lease_text"
    by (simp add: example_ubus_def)
  have g: "get_dnsmasq_leases example_ubus ''/tmp/dhcp.tabbed''
     = Inr [''1700000000'' @ [CHR 0x09] @ ''AA:BB:CC:DD:EE:FF'' \<mapsto>
             \<lparr>expires = '''', mac = ''1700000000'' @ [CHR 0x09] @ ''aa:bb:cc:dd:ee:ff'',
               ip = ''192.168.1.23'', hostname = ''phone'', client_id = ''*''\<rparr>]"
    using tabbed_line_space_fields tabbed_mac_upper by (simp add: get_dnsmasq_leases_def r tabbed_text_lines Lease_init_def)
  show ?thesis
    using tabbed_line_whitespace_fields r g by (simp add: tabbed_lease_text_def)
qed

lemma example_text_lines: "splitlines example_lease_text =
   [''1700000000 aa:bb:cc:dd:ee:ff 192.168.1.23 phone *'',
    ''1700000100 11:22:33:44:55:66 192.168.1.24 laptop 01:11:22:33:44:55:66'']"
  by code_simp

lemma example_line1_fields: "str_split (CHR '' '') ''1700000000 aa:bb:cc:dd:ee:ff 192.168.1.23 phone *''
   = [''1700000000'', ''aa:bb:cc:dd:ee:ff'', ''192.168.1.23'', ''phone'', ''*'']"
  by code_simp

lemma example_line2_fields: "str_split (CHR '' '') ''1700000100 11:22:33:44:55:66 192.168.1.24 laptop 01:11:22:33:44:55:66''
   = [''1700000100'', ''11:22:33:44:55:66'', ''192.168.1.24'', ''laptop'', ''01:11:22:33:44:55:66'']"
  by code_simp

lemma example_macs_upper: "upper ''aa:bb:cc:dd:ee:ff'' = ''AA:BB:CC:DD:EE:FF''"
          "upper ''11:22:33:44:55:66'' = ''11:22:33:44:55:66''"
  by code_simp+

text \<open>Witness of C2: the example lease file with two lines of five fields each.\<close>

theorem dnsmasq_leases_of_wellformed_text_witness:
  "file_read_data example_ubus ''/tmp/dhcp.leases'' = Inr example_lease_text \<and>
   splitlines example_lease_text =
     [''1700000000 aa:bb:cc:dd:ee:ff 192.168.1.23 phone *'',
      ''1700000100 11:22:33:44:55:66 192.168.1.24 laptop 01:11:22:33:44:55:66''] \<and>
   length (str_split (CHR '' '') ''1700000000 aa:bb:cc:dd:ee:ff 192.168.1.23 phone *'') = 5 \<and>
   length (str_split (CHR '' '')
     ''1700000100 11:22:33:44:55:66 192.168.1.24 laptop 01:11:22:33:44:55:66'') = 5 \<and>
   get_dnsmasq_leases example_ubus ''/tmp/dhcp.leases'' =
     Inr [''AA:BB:CC:DD:EE:FF'' \<mapsto>
            \<lparr>expires = ''1700000000'', mac = ''aa:bb:cc:dd:ee:ff'', ip = ''192.168.1.23'',
              hostname = ''phone'', client_id = ''*''\<rparr>,
          ''11:22:33:44:55:66'' \<mapsto>
            \<lparr>expires = ''1700000100'', mac = ''11:22:33:44:55:66'', ip = ''192.168.1.24'',
              hostname = ''laptop'', client_id = ''01:11:22:33:44:55:66''\<rparr>]"
proof -
  have r: "file_read_data example_ubus ''/tmp/dhcp.leases'' = Inr example_lease_text"
    by (simp add: example_ubus_def)
  have five: "list_all (\<lambda>lease_line. length (str_split (CHR '' '') lease_line) = 5)
                (splitlines example_lease_text)"
    by (simp add: example_text_lines example_line1_fields example_line2_fields)
  show ?thesis
    using dnsmasq_leases_of_wellformed_text [OF r five] by (simp add: r example_text_lines example_line1_fields example_line2_fields example_macs_upper)
qed

subsection \<open>Vendor exceptions\<close>









lemma example_dnsmasq_leases:
  "get_dnsmasq_leases example_ubus ''/tmp/dhcp.leases'' = Inr example_lease_dict"
proof -
  have r: "file_read_data example_ubus ''/tmp/dhcp.leases'' = Inr example_lease_text"
    by (simp add: example_ubus_def)
  show ?thesis
    using example_line1_fields example_line2_fields example_macs_upper
    by (simp add: get_dnsmasq_leases_def r example_text_lines Lease_init_def example_lease_dict_def)
qed

lemma example_leases_wrapped:
  "(\<lambda>k. map_option LeaseObj (example_lease_dict k)) = example_leases"
  by (rule ext) (simp add: example_leases_def example_lease_dict_def)





lemma example_scanner_fields:
  "ubus example_scanner = example_ubus"
  "wlan_ifaces example_scanner = [''wlan0'', ''wlan1'']"
  "lease_file example_scanner = None"
  by (simp_all add: example_scanner_def)

lemma example_ubus_fields:
  "session_enter example_ubus = None"
  "\<not> contains example_ubus ''dhcp''"
  "iwinfo_assoclist example_ubus ''wlan1'' = Inl UbusException"
  by (simp_all add: example_ubus_def)



subsection \<open>Device names\<close>

text \<open>Claim C8. For every queried hardware address, \<^verbatim>\<open>get_device_name\<close> returns the
  hostname of the lease stored under exactly that address in the dict of \<^verbatim>\<open>_get_leases\<close>
  (whose lease keys are uppercased hardware addresses), and None when nothing is stored
  under it.\<close>

theorem get_device_name_looks_up_exact_address:
  assumes "fst (get_leases self) = Inr leases"
  shows "(leases m = Some (LeaseObj lease) \<longrightarrow>
            fst (get_device_name self m) = Inr (Some (hostname lease))) \<and>
         (leases m = None \<longrightarrow> fst (get_device_name self m) = Inr None)"
  using assms by (auto simp: get_device_name_def split: prod.splits)

text \<open>Witness of C8: with the example lease file configured, the uppercased address of
  the first lease gives its hostname, and the same address in lower case, under which no
  lease is stored, gives None.\<close>

theorem get_device_name_looks_up_exact_address_witness:
  "fst (get_leases (example_scanner\<lparr>lease_file := Some ''/tmp/dhcp.leases''\<rparr>)) = Inr example_leases \<and>
   example_leases ''AA:BB:CC:DD:EE:FF''
     = Some (LeaseObj \<lparr>expires = ''1700000000'', mac = ''aa:bb:cc:dd:ee:ff'',
                       ip = ''192.168.1.23'', hostname = ''phone'', client_id = ''*''\<rparr>) \<and>
   fst (get_device_name (example_scanner\<lparr>lease_file := Some ''/tmp/dhcp.leases''\<rparr>)
          ''AA:BB:CC:DD:EE:FF'') = Inr (Some ''phone'') \<and>
   example_leases ''aa:bb:cc:dd:ee:ff'' = None \<and>
   fst (get_device_name (example_scanner\<lparr>lease_file := Some ''/tmp/dhcp.leases''\<rparr>)
          ''aa:bb:cc:dd:ee:ff'') = Inr None"
proof -
  have gl: "fst (get_leases (example_scanner\<lparr>lease_file := Some ''/tmp/dhcp.leases''\<rparr>))
      = Inr example_leases"
    by (simp add: get_leases_def get_leases_try_def example_scanner_fields example_ubus_fields
          example_dnsmasq_leases example_leases_wrapped)
  have l1: "example_leases ''AA:BB:CC:DD:EE:FF''
     = Some (LeaseObj \<lparr>expires = ''1700000000'', mac = ''aa:bb:cc:dd:ee:ff'',
                       ip = ''192.168.1.23'', hostname = ''phone'', client_id = ''*''\<rparr>)"
    by (simp add: example_leases_def)
  have l2: "example_leases ''aa:bb:cc:dd:ee:ff'' = None"
    by (simp add: example_leases_def)
  show ?thesis
    using get_device_name_looks_up_exact_address [OF gl, of "''AA:BB:CC:DD:EE:FF''"
                "\<lparr>expires = ''1700000000'', mac = ''aa:bb:cc:dd:ee:ff'',
                   ip = ''192.168.1.23'', hostname = ''phone'', client_id = ''*''\<rparr>"]
          get_device_name_looks_up_exact_address [OF gl, of "''aa:bb:cc:dd:ee:ff''"]
    by (simp add: gl l1 l2)
qed

end
